theory Spec2Isabelle
  imports Complex_Main
begin

section \<open>Data model\<close>

text \<open>
  Python floats are modelled as reals: comparisons between finite floats agree with the
  comparisons of the reals they denote, and no NaN reaches the strategy (the indicator
  frame is passed through \<^verbatim>\<open>dropna\<close> first).  A \<^verbatim>\<open>datetime\<close> is the number of
  microseconds since the epoch, so that \<^verbatim>\<open>timedelta(minutes=m)\<close> is
  \<open>m * 60 * 1000000\<close>.
\<close>

type_synonym datetime = int

definition timedelta_minutes :: "int \<Rightarrow> int" where
  "timedelta_minutes m = m * 60 * 1000000"

datatype py_error = ValueError string | KeyError string | ZeroDivisionError

text \<open>One row of the candle frame as fetched: the index label and the close column.\<close>

record candle =
  name :: datetime
  close :: real

text \<open>
  One row after \<^verbatim>\<open>calculate_indicators\<close>.  \<open>SMA21\<close> is \<open>None\<close> where pandas
  stores NaN (fewer than 21 observations in the window).
\<close>

record row = candle +
  EMA34 :: real
  SMA21 :: "real option"
  upper_band :: real
  lower_band :: real

type_synonym position = "(string \<times> string) list"

record BandStrategy =
  position_size_usd :: real
  leverage :: int
  tp_multiplier :: real
  sl_multiplier :: real
  active_position :: "position option"
  last_signal_candle :: "datetime option"
  pending_signal :: "string option"

section \<open>strategy.py: BandStrategy\<close>

definition BandStrategy_init :: "real \<Rightarrow> int \<Rightarrow> real \<Rightarrow> real \<Rightarrow> BandStrategy" where
  "BandStrategy_init position_size_usd' leverage' tp_multiplier' sl_multiplier' =
     \<lparr> position_size_usd = position_size_usd',
       leverage = leverage',
       tp_multiplier = tp_multiplier',
       sl_multiplier = sl_multiplier',
       active_position = None,
       last_signal_candle = None,
       pending_signal = None \<rparr>"

text \<open>
  The constructor call as an expression that may raise: the body of \<^verbatim>\<open>__init__\<close>
  holds assignments only, so the call returns for every argument.
\<close>

definition BandStrategy_new :: "real \<Rightarrow> int \<Rightarrow> real \<Rightarrow> real \<Rightarrow> py_error + BandStrategy" where
  "BandStrategy_new position_size_usd' leverage' tp_multiplier' sl_multiplier' =
     Inr (BandStrategy_init position_size_usd' leverage' tp_multiplier' sl_multiplier')"

subsection \<open>get_signal\<close>

text \<open>Truth value of \<^verbatim>\<open>self.pending_signal\<close>: neither \<^verbatim>\<open>None\<close> nor the empty string.\<close>

definition truthy_str :: "string option \<Rightarrow> bool" where
  "truthy_str s = (case s of None \<Rightarrow> False | Some v \<Rightarrow> v \<noteq> [])"

text \<open>Line 67: \<^verbatim>\<open>self.last_signal_candle + timedelta(minutes=5)\<close>.\<close>

definition expected_next_candle :: "datetime \<Rightarrow> datetime" where
  "expected_next_candle last_signal = last_signal + timedelta_minutes 5"

text \<open>
  The method mutates \<^verbatim>\<open>self\<close>; the model returns the result together with the
  strategy after the call.  Logging is left out.
\<close>

definition get_signal :: "BandStrategy \<Rightarrow> row list \<Rightarrow> string option \<times> BandStrategy" where
  "get_signal self df =
     (if length df < 2 then (None, self)
      else
        let current = df ! (length df - 1);
            prev = df ! (length df - 2)
        in
          if truthy_str (pending_signal self) \<and> last_signal_candle self \<noteq> None then
            let expected = expected_next_candle (the (last_signal_candle self));
                current_time = name current
            in
              if current_time = expected then
                (pending_signal self,
                 self\<lparr>pending_signal := None, last_signal_candle := None\<rparr>)
              else if current_time > expected then
                (None, self\<lparr>pending_signal := None, last_signal_candle := None\<rparr>)
              else (None, self)
          else
            let prev_above_bands = close prev > upper_band prev;
                prev_below_bands = close prev < lower_band prev
            in
              if prev_above_bands \<or> prev_below_bands then
                (None,
                 self\<lparr>pending_signal := Some (if prev_above_bands then ''long'' else ''short''),
                      last_signal_candle := Some (name prev)\<rparr>)
              else (None, self))"

text \<open>
  The trading loop calls \<^verbatim>\<open>get_signal\<close> once per cycle on the same strategy object:
  \<open>state_after self dfs\<close> is the strategy after the calls on the frames \<open>dfs\<close>, in order.
\<close>

definition state_after :: "BandStrategy \<Rightarrow> row list list \<Rightarrow> BandStrategy" where
  "state_after self dfs = fold (\<lambda>df s. snd (get_signal s df)) dfs self"

text \<open>The guard of line 66: a pending signal together with its candle time.\<close>

definition armed :: "BandStrategy \<Rightarrow> bool" where
  "armed self = (truthy_str (pending_signal self) \<and> last_signal_candle self \<noteq> None)"

text \<open>A call arms when it starts without a pending signal and leaves one behind.\<close>

definition arms :: "BandStrategy \<Rightarrow> row list \<Rightarrow> bool" where
  "arms self df = (\<not> armed self \<and> armed (snd (get_signal self df)))"

subsection \<open>calculate_indicators\<close>

text \<open>
  \<^verbatim>\<open>ewm(span=34, adjust=False).mean()\<close>: the first value is the first observation,
  then \<open>y\<^sub>i = (1 - \<alpha>) * y\<^sub>i\<^sub>-\<^sub>1 + \<alpha> * x\<^sub>i\<close> with \<open>\<alpha> = 2 / (span + 1)\<close>.
\<close>

fun ewm_from :: "real \<Rightarrow> real \<Rightarrow> real list \<Rightarrow> real list" where
  "ewm_from \<alpha> y [] = []"
| "ewm_from \<alpha> y (x # xs) = (let y' = (1 - \<alpha>) * y + \<alpha> * x in y' # ewm_from \<alpha> y' xs)"

definition ewm_mean :: "nat \<Rightarrow> real list \<Rightarrow> real list" where
  "ewm_mean span' xs =
     (case xs of [] \<Rightarrow> [] | x # rest \<Rightarrow> x # ewm_from (2 / (real span' + 1)) x rest)"

text \<open>
  \<^verbatim>\<open>rolling(window=w).mean()\<close>: NaN until the window holds \<open>w\<close> observations, then the
  mean of the last \<open>w\<close> values.
\<close>

definition rolling_mean :: "nat \<Rightarrow> real list \<Rightarrow> real option list" where
  "rolling_mean w xs =
     map (\<lambda>i. if i + 1 < w then None
              else Some (sum_list (take w (drop (i + 1 - w) xs)) / real w))
         [0..<length xs]"

text \<open>\<^verbatim>\<open>max(axis=1)\<close> and \<^verbatim>\<open>min(axis=1)\<close> skip NaN.\<close>

definition max_skipna :: "real \<Rightarrow> real option \<Rightarrow> real" where
  "max_skipna e s = (case s of None \<Rightarrow> e | Some v \<Rightarrow> max e v)"

definition min_skipna :: "real \<Rightarrow> real option \<Rightarrow> real" where
  "min_skipna e s = (case s of None \<Rightarrow> e | Some v \<Rightarrow> min e v)"

text \<open>\<^verbatim>\<open>dropna()\<close>: \<open>SMA21\<close> is the only column that can hold NaN.\<close>

definition dropna :: "row list \<Rightarrow> row list" where
  "dropna rows = filter (\<lambda>r. SMA21 r \<noteq> None) rows"

definition calculate_indicators :: "candle list \<Rightarrow> row list" where
  "calculate_indicators df =
     (if df = [] then []
      else
        let closes = map close df;
            ema34 = ewm_mean 34 closes;
            sma21 = rolling_mean 21 closes
        in dropna
             (map (\<lambda>i. \<lparr> name = name (df ! i), close = close (df ! i),
                         EMA34 = ema34 ! i, SMA21 = sma21 ! i,
                         upper_band = max_skipna (ema34 ! i) (sma21 ! i),
                         lower_band = min_skipna (ema34 ! i) (sma21 ! i) \<rparr>)
                  [0..<length df]))"

subsection \<open>calculate_entry_levels\<close>

text \<open>
  Python's \<^verbatim>\<open>round(x, ndigits)\<close> rounds to the nearest multiple of \<open>10\<^sup>-\<^sup>n\<close>, ties to
  the even one.  On reals the result is that multiple itself.
\<close>

definition round_half_even :: "real \<Rightarrow> int" where
  "round_half_even x =
     (let f = \<lfloor>x\<rfloor>; d = x - of_int f
      in if d < 1 / 2 then f
         else if d > 1 / 2 then f + 1
         else if even f then f else f + 1)"

definition py_round :: "real \<Rightarrow> nat \<Rightarrow> real" where
  "py_round x ndigits = of_int (round_half_even (x * 10 ^ ndigits)) / 10 ^ ndigits"

definition calculate_entry_levels ::
    "BandStrategy \<Rightarrow> real \<Rightarrow> (string \<rightharpoonup> real) \<Rightarrow> bool \<Rightarrow> py_error + (real \<times> real)" where
  "calculate_entry_levels self current_price bands is_long =
     (case bands ''upper'' of
        None \<Rightarrow> Inl (KeyError ''upper'')
      | Some upper \<Rightarrow>
          (case bands ''lower'' of
             None \<Rightarrow> Inl (KeyError ''lower'')
           | Some lower \<Rightarrow>
               let band_distance = \<bar>upper - lower\<bar>;
                   (tp_price, sl_price) =
                     (if is_long then
                        let tp_distance = band_distance * tp_multiplier self;
                            sl_distance = band_distance * sl_multiplier self
                        in (current_price + tp_distance, current_price - sl_distance)
                      else
                        let tp_distance = band_distance * tp_multiplier self;
                            sl_distance = band_distance * sl_multiplier self
                        in (current_price - tp_distance, current_price + sl_distance))
               in Inr (py_round tp_price 4, py_round sl_price 4)))"

section \<open>position_calculator.py: PositionCalculator\<close>

definition MIN_AMOUNTS :: "string \<rightharpoonup> real" where
  "MIN_AMOUNTS = map_of [(''BTC-USDT'', 1 / 10), (''ETH-USDT'', 1), (''DEFAULT'', 1)]"

definition get_minimum_amount :: "string \<Rightarrow> py_error + real" where
  "get_minimum_amount symbol =
     (case MIN_AMOUNTS ''DEFAULT'' of
        None \<Rightarrow> Inl (KeyError ''DEFAULT'')
      | Some dflt \<Rightarrow> (case MIN_AMOUNTS symbol of None \<Rightarrow> Inr dflt | Some v \<Rightarrow> Inr v))"

definition calculate_position_size :: "real \<Rightarrow> real \<Rightarrow> int \<Rightarrow> string \<Rightarrow> py_error + real" where
  "calculate_position_size price usd_size leverage' symbol =
     (if price = 0 then Inl ZeroDivisionError
      else
        let position_size = (usd_size * of_int leverage') / price
        in (case get_minimum_amount symbol of
              Inl e \<Rightarrow> Inl e
            | Inr min_amount \<Rightarrow>
                let position_size = py_round position_size 4;
                    position_size = (if position_size < min_amount then min_amount
                                     else position_size)
                in Inr (py_round position_size 8)))"

section \<open>utils.py\<close>

definition endswith :: "string \<Rightarrow> string \<Rightarrow> bool" where
  "endswith s sfx = (length sfx \<le> length s \<and> drop (length s - length sfx) s = sfx)"

definition validate_input :: "string \<Rightarrow> real \<Rightarrow> int \<Rightarrow> real \<Rightarrow> real \<Rightarrow> py_error + unit" where
  "validate_input symbol position_size leverage' tp_percentage sl_percentage =
     (if position_size \<le> 0 then Inl (ValueError ''Position size must be positive'')
      else if leverage' < 1 then Inl (ValueError ''Leverage must be at least 1'')
      else if tp_percentage \<le> 0 \<or> sl_percentage \<le> 0 then
        Inl (ValueError ''TP and SL percentages must be positive'')
      else if \<not> endswith symbol ''-USDT'' then
        Inl (ValueError ''Symbol must be in format XXX-USDT'')
      else Inr ())"

section \<open>Properties of the signal detector\<close>

lemma get_signal_unarmed:
  "\<not> armed self \<Longrightarrow> fst (get_signal self df) = None"
  by (auto simp add: get_signal_def armed_def Let_def split: if_splits)

lemma get_signal_stays_armed:
  "armed self \<Longrightarrow> armed (snd (get_signal self df)) \<Longrightarrow> snd (get_signal self df) = self"
  by (auto simp add: get_signal_def armed_def Let_def truthy_str_def split: if_splits)

lemma get_signal_fire_armed:
  "fst (get_signal self df) = Some d \<Longrightarrow> armed self \<and> pending_signal self = Some d"
  by (auto simp add: get_signal_def armed_def Let_def split: if_splits)

lemma state_after_snoc:
  "state_after self (dfs @ [df]) = snd (get_signal (state_after self dfs) df)"
  by (simp add: state_after_def)

lemma armed_has_origin:
  "k \<le> length dfs \<Longrightarrow> \<not> armed self \<Longrightarrow> armed (state_after self (take k dfs)) \<Longrightarrow>
     \<exists>j<k. arms (state_after self (take j dfs)) (dfs ! j) \<and>
            state_after self (take (Suc j) dfs) = state_after self (take k dfs)"
proof (induction k)
  case 0
  then show ?case by (simp add: state_after_def)
next
  case (Suc k)
  let ?s = "state_after self (take k dfs)"
  have lt: "k < length dfs" using Suc.prems(1) by simp
  have step: "state_after self (take (Suc k) dfs) = snd (get_signal ?s (dfs ! k))"
    using lt by (simp add: take_Suc_conv_app_nth state_after_snoc)
  show ?case
  proof (cases "armed ?s")
    case True
    with Suc.prems(3) step have same: "state_after self (take (Suc k) dfs) = ?s"
      by (simp add: get_signal_stays_armed)
    from Suc.IH True lt Suc.prems(2) obtain j where
      "j < k" "arms (state_after self (take j dfs)) (dfs ! j)"
      "state_after self (take (Suc j) dfs) = ?s" by auto
    with same show ?thesis by (metis less_Suc_eq)
  next
    case False
    with Suc.prems(3) step have "arms ?s (dfs ! k)" by (simp add: arms_def)
    then show ?thesis by blast
  qed
qed

lemma last_row:
  "2 \<le> length df \<Longrightarrow> df ! (length df - 1) = last df"
  by (cases df) (simp_all add: last_conv_nth)

lemma get_signal_armed:
  assumes "2 \<le> length df" "pending_signal self = Some d" "d \<noteq> []"
    "last_signal_candle self = Some T"
  shows "get_signal self df =
     (if name (last df) = T + timedelta_minutes 5 then
        (Some d, self\<lparr>pending_signal := None, last_signal_candle := None\<rparr>)
      else if name (last df) > T + timedelta_minutes 5 then
        (None, self\<lparr>pending_signal := None, last_signal_candle := None\<rparr>)
      else (None, self))"
proof -
  have "df ! (length df - 1) = last df" using assms(1) by (rule last_row)
  moreover have "\<not> length df < 2" using assms(1) by simp
  moreover have "truthy_str (pending_signal self)" using assms(2,3) by (simp add: truthy_str_def)
  ultimately show ?thesis
    using assms(2,4) by (simp add: get_signal_def Let_def expected_next_candle_def)
qed

text \<open>
  C1.  As stated the claim fails on a frame with a single row: the guard of line 43 returns
  before the pending signal is looked at, so the armed signal survives a call whose last
  candle is later than the armed time plus five minutes.
\<close>

theorem single_candle_keeps_pending:
  "0 + timedelta_minutes 5 <
     name (last [\<lparr>name = 900000000, close = 100, EMA34 = 105, SMA21 = Some 95, upper_band = 105, lower_band = 95\<rparr>]) \<and>
   pending_signal (snd (get_signal
     (BandStrategy_init 100 3 2 1\<lparr>pending_signal := Some ''long'', last_signal_candle := Some 0\<rparr>)
     [\<lparr>name = 900000000, close = 100, EMA34 = 105, SMA21 = Some 95, upper_band = 105, lower_band = 95\<rparr>]))
   = Some ''long'' \<and>
   last_signal_candle (snd (get_signal
     (BandStrategy_init 100 3 2 1\<lparr>pending_signal := Some ''long'', last_signal_candle := Some 0\<rparr>)
     [\<lparr>name = 900000000, close = 100, EMA34 = 105, SMA21 = Some 95, upper_band = 105, lower_band = 95\<rparr>]))
   = Some 0"
  by (simp add: get_signal_def BandStrategy_init_def timedelta_minutes_def)

text \<open>
  C1, amended.  For every strategy holding a pending signal armed at \<open>T\<close> and every call
  on a frame of at least two rows whose last candle time is strictly greater than
  \<open>T\<close> plus five minutes, the call returns no signal and clears both the pending signal
  and its candle time.  Every call on a frame of fewer than two rows returns no signal and
  leaves the strategy as it was, so a pending signal stays armed.
\<close>

theorem missed_window_discards:
  "(2 \<le> length df \<and> pending_signal self = Some d \<and> d \<noteq> [] \<and>
    last_signal_candle self = Some T \<and> name (last df) > T + timedelta_minutes 5 \<longrightarrow>
      get_signal self df =
        (None, self\<lparr>pending_signal := None, last_signal_candle := None\<rparr>)) \<and>
   (length df < 2 \<longrightarrow> get_signal self df = (None, self))"
proof (intro conjI impI)
  assume "2 \<le> length df \<and> pending_signal self = Some d \<and> d \<noteq> [] \<and>
    last_signal_candle self = Some T \<and> name (last df) > T + timedelta_minutes 5"
  then show "get_signal self df =
        (None, self\<lparr>pending_signal := None, last_signal_candle := None\<rparr>)"
    by (simp add: get_signal_armed)
next
  assume "length df < 2"
  then show "get_signal self df = (None, self)"
    by (simp add: get_signal_def)
qed

theorem missed_window_discards_witness:
  "2 \<le> length [\<lparr>name = 0, close = 110, EMA34 = 105, SMA21 = Some 95, upper_band = 105, lower_band = 95\<rparr>,
                 \<lparr>name = 900000000, close = 100, EMA34 = 105, SMA21 = Some 95, upper_band = 105, lower_band = 95\<rparr>] \<and>
   0 + timedelta_minutes 5 <
     name (last [\<lparr>name = 0, close = 110, EMA34 = 105, SMA21 = Some 95, upper_band = 105, lower_band = 95\<rparr>,
                 \<lparr>name = 900000000, close = 100, EMA34 = 105, SMA21 = Some 95, upper_band = 105, lower_band = 95\<rparr>]) \<and>
   get_signal (BandStrategy_init 100 3 2 1\<lparr>pending_signal := Some ''long'', last_signal_candle := Some 0\<rparr>)
     [\<lparr>name = 0, close = 110, EMA34 = 105, SMA21 = Some 95, upper_band = 105, lower_band = 95\<rparr>,
      \<lparr>name = 900000000, close = 100, EMA34 = 105, SMA21 = Some 95, upper_band = 105, lower_band = 95\<rparr>]
   = (None, BandStrategy_init 100 3 2 1) \<and>
   length [\<lparr>name = 900000000, close = 100, EMA34 = 105, SMA21 = Some 95, upper_band = 105, lower_band = 95\<rparr>] < 2 \<and>
   get_signal (BandStrategy_init 100 3 2 1\<lparr>pending_signal := Some ''short'', last_signal_candle := Some 0\<rparr>)
     [\<lparr>name = 900000000, close = 100, EMA34 = 105, SMA21 = Some 95, upper_band = 105, lower_band = 95\<rparr>]
   = (None, BandStrategy_init 100 3 2 1\<lparr>pending_signal := Some ''short'', last_signal_candle := Some 0\<rparr>)"
  using missed_window_discards [where df =
     "[\<lparr>name = 0, close = 110, EMA34 = 105, SMA21 = Some 95, upper_band = 105, lower_band = 95\<rparr>,
       \<lparr>name = 900000000, close = 100, EMA34 = 105, SMA21 = Some 95, upper_band = 105, lower_band = 95\<rparr>]"
     and self = "BandStrategy_init 100 3 2 1\<lparr>pending_signal := Some ''long'', last_signal_candle := Some 0\<rparr>"
     and d = "''long''" and T = 0]
    missed_window_discards [where df =
     "[\<lparr>name = 900000000, close = 100, EMA34 = 105, SMA21 = Some 95, upper_band = 105, lower_band = 95\<rparr>]"
     and self = "BandStrategy_init 100 3 2 1\<lparr>pending_signal := Some ''short'', last_signal_candle := Some 0\<rparr>"
     and d = "''short''" and T = 0]
  by (simp add: BandStrategy_init_def timedelta_minutes_def)

lemma ex_arm:
  "get_signal (BandStrategy_init 100 3 2 1)
     [\<lparr>name = 0, close = 110, EMA34 = 105, SMA21 = Some 95, upper_band = 105, lower_band = 95\<rparr>,
      \<lparr>name = 300000000, close = 100, EMA34 = 105, SMA21 = Some 95, upper_band = 105, lower_band = 95\<rparr>]
   = (None, BandStrategy_init 100 3 2 1\<lparr>pending_signal := Some ''long'', last_signal_candle := Some 0\<rparr>)"
  by (simp add: get_signal_def BandStrategy_init_def truthy_str_def)

lemma ex_fire:
  "get_signal (BandStrategy_init 100 3 2 1\<lparr>pending_signal := Some ''long'', last_signal_candle := Some 0\<rparr>)
     [\<lparr>name = 0, close = 110, EMA34 = 105, SMA21 = Some 95, upper_band = 105, lower_band = 95\<rparr>,
      \<lparr>name = 300000000, close = 100, EMA34 = 105, SMA21 = Some 95, upper_band = 105, lower_band = 95\<rparr>]
   = (Some ''long'', BandStrategy_init 100 3 2 1)"
  by (simp add: get_signal_def BandStrategy_init_def truthy_str_def expected_next_candle_def timedelta_minutes_def)

text \<open>
  C2.  A call that arms a pending signal returns no signal.  In every run of calls from a
  freshly constructed strategy, a call that returns a signal is preceded by an earlier call
  that armed that signal and itself returned none.
\<close>

theorem arm_then_fire:
  "(arms self df \<longrightarrow> fst (get_signal self df) = None) \<and>
   (k < length dfs \<and>
    fst (get_signal (state_after (BandStrategy_init ps lev tp sl) (take k dfs)) (dfs ! k)) = Some d
    \<longrightarrow> (\<exists>j<k. arms (state_after (BandStrategy_init ps lev tp sl) (take j dfs)) (dfs ! j) \<and>
               fst (get_signal (state_after (BandStrategy_init ps lev tp sl) (take j dfs)) (dfs ! j)) = None \<and>
               pending_signal (state_after (BandStrategy_init ps lev tp sl) (take (Suc j) dfs)) = Some d))"
proof (intro conjI impI)
  assume "arms self df"
  then show "fst (get_signal self df) = None"
    by (simp add: arms_def get_signal_unarmed)
next
  let ?init = "BandStrategy_init ps lev tp sl"
  assume a: "k < length dfs \<and> fst (get_signal (state_after ?init (take k dfs)) (dfs ! k)) = Some d"
  then have ar: "armed (state_after ?init (take k dfs))"
    and pd: "pending_signal (state_after ?init (take k dfs)) = Some d"
    using get_signal_fire_armed by blast+
  have "\<not> armed ?init" by (simp add: armed_def BandStrategy_init_def truthy_str_def)
  with a ar armed_has_origin [of k dfs ?init] obtain j where j: "j < k"
    "arms (state_after ?init (take j dfs)) (dfs ! j)"
    "state_after ?init (take (Suc j) dfs) = state_after ?init (take k dfs)" by auto
  from j(2) have "fst (get_signal (state_after ?init (take j dfs)) (dfs ! j)) = None"
    by (simp add: arms_def get_signal_unarmed)
  with j pd show "\<exists>j<k. arms (state_after ?init (take j dfs)) (dfs ! j) \<and>
               fst (get_signal (state_after ?init (take j dfs)) (dfs ! j)) = None \<and>
               pending_signal (state_after ?init (take (Suc j) dfs)) = Some d" by auto
qed

theorem arm_then_fire_witness:
  "arms (BandStrategy_init 100 3 2 1)
     [\<lparr>name = 0, close = 110, EMA34 = 105, SMA21 = Some 95, upper_band = 105, lower_band = 95\<rparr>,
      \<lparr>name = 300000000, close = 100, EMA34 = 105, SMA21 = Some 95, upper_band = 105, lower_band = 95\<rparr>] \<and>
   fst (get_signal (BandStrategy_init 100 3 2 1)
     [\<lparr>name = 0, close = 110, EMA34 = 105, SMA21 = Some 95, upper_band = 105, lower_band = 95\<rparr>,
      \<lparr>name = 300000000, close = 100, EMA34 = 105, SMA21 = Some 95, upper_band = 105, lower_band = 95\<rparr>]) = None \<and>
   fst (get_signal (state_after (BandStrategy_init 100 3 2 1) (take 1
     [[\<lparr>name = 0, close = 110, EMA34 = 105, SMA21 = Some 95, upper_band = 105, lower_band = 95\<rparr>,
       \<lparr>name = 300000000, close = 100, EMA34 = 105, SMA21 = Some 95, upper_band = 105, lower_band = 95\<rparr>],
      [\<lparr>name = 0, close = 110, EMA34 = 105, SMA21 = Some 95, upper_band = 105, lower_band = 95\<rparr>,
       \<lparr>name = 300000000, close = 100, EMA34 = 105, SMA21 = Some 95, upper_band = 105, lower_band = 95\<rparr>]]))
     ([[\<lparr>name = 0, close = 110, EMA34 = 105, SMA21 = Some 95, upper_band = 105, lower_band = 95\<rparr>,
       \<lparr>name = 300000000, close = 100, EMA34 = 105, SMA21 = Some 95, upper_band = 105, lower_band = 95\<rparr>],
      [\<lparr>name = 0, close = 110, EMA34 = 105, SMA21 = Some 95, upper_band = 105, lower_band = 95\<rparr>,
       \<lparr>name = 300000000, close = 100, EMA34 = 105, SMA21 = Some 95, upper_band = 105, lower_band = 95\<rparr>]] ! 1))
     = Some ''long'' \<and>
   pending_signal (state_after (BandStrategy_init 100 3 2 1) (take (Suc 0)
     [[\<lparr>name = 0, close = 110, EMA34 = 105, SMA21 = Some 95, upper_band = 105, lower_band = 95\<rparr>,
       \<lparr>name = 300000000, close = 100, EMA34 = 105, SMA21 = Some 95, upper_band = 105, lower_band = 95\<rparr>],
      [\<lparr>name = 0, close = 110, EMA34 = 105, SMA21 = Some 95, upper_band = 105, lower_band = 95\<rparr>,
       \<lparr>name = 300000000, close = 100, EMA34 = 105, SMA21 = Some 95, upper_band = 105, lower_band = 95\<rparr>]]))
     = Some ''long''"
  using arm_then_fire [of "BandStrategy_init 100 3 2 1"
     "[\<lparr>name = 0, close = 110, EMA34 = 105, SMA21 = Some 95, upper_band = 105, lower_band = 95\<rparr>,
       \<lparr>name = 300000000, close = 100, EMA34 = 105, SMA21 = Some 95, upper_band = 105, lower_band = 95\<rparr>]"
     1
     "[[\<lparr>name = 0, close = 110, EMA34 = 105, SMA21 = Some 95, upper_band = 105, lower_band = 95\<rparr>,
       \<lparr>name = 300000000, close = 100, EMA34 = 105, SMA21 = Some 95, upper_band = 105, lower_band = 95\<rparr>],
      [\<lparr>name = 0, close = 110, EMA34 = 105, SMA21 = Some 95, upper_band = 105, lower_band = 95\<rparr>,
       \<lparr>name = 300000000, close = 100, EMA34 = 105, SMA21 = Some 95, upper_band = 105, lower_band = 95\<rparr>]]"
     100 3 2 1 "''long''"]
  by (simp add: state_after_def arms_def armed_def ex_arm ex_fire truthy_str_def)

text \<open>
  C3.  As stated the claim fails: the strategy has no candle interval parameter, and the
  expected candle is always five minutes after the armed one.  With an interval of fifteen
  minutes in mind, the candle at the armed time plus fifteen minutes is discarded, not
  fired.
\<close>

theorem interval_not_configurable:
  "expected_next_candle 0 \<noteq> 0 + timedelta_minutes 15 \<and>
   get_signal (BandStrategy_init 100 3 2 1\<lparr>pending_signal := Some ''long'', last_signal_candle := Some 0\<rparr>)
     [\<lparr>name = 0, close = 110, EMA34 = 105, SMA21 = Some 95, upper_band = 105, lower_band = 95\<rparr>,
      \<lparr>name = 0 + timedelta_minutes 15, close = 100, EMA34 = 105, SMA21 = Some 95, upper_band = 105, lower_band = 95\<rparr>]
   = (None, BandStrategy_init 100 3 2 1)"
  by (simp add: get_signal_def BandStrategy_init_def timedelta_minutes_def
        expected_next_candle_def truthy_str_def)

text \<open>
  C3, amended.  For every strategy configuration and every pending signal armed at
  \<open>T\<close>, the expected execution candle time used for the decision to fire or discard is
  \<open>T\<close> plus five minutes: the call fires exactly at that time, discards after it and
  waits before it.
\<close>

theorem fixed_five_minute_window:
  "2 \<le> length df \<Longrightarrow> pending_signal self = Some d \<Longrightarrow> d \<noteq> [] \<Longrightarrow>
   last_signal_candle self = Some T \<Longrightarrow>
   expected_next_candle T = T + timedelta_minutes 5 \<and>
   get_signal self df =
     (if name (last df) = T + timedelta_minutes 5 then
        (Some d, self\<lparr>pending_signal := None, last_signal_candle := None\<rparr>)
      else if name (last df) > T + timedelta_minutes 5 then
        (None, self\<lparr>pending_signal := None, last_signal_candle := None\<rparr>)
      else (None, self))"
  using get_signal_armed [of df self d T] by (simp add: expected_next_candle_def)

theorem fixed_five_minute_window_witness:
  "2 \<le> length [\<lparr>name = 0, close = 110, EMA34 = 105, SMA21 = Some 95, upper_band = 105, lower_band = 95\<rparr>,
      \<lparr>name = 300000000, close = 100, EMA34 = 105, SMA21 = Some 95, upper_band = 105, lower_band = 95\<rparr>] \<and>
   expected_next_candle 0 = 300000000 \<and>
   get_signal (BandStrategy_init 100 3 2 1\<lparr>pending_signal := Some ''long'', last_signal_candle := Some 0\<rparr>)
     [\<lparr>name = 0, close = 110, EMA34 = 105, SMA21 = Some 95, upper_band = 105, lower_band = 95\<rparr>,
      \<lparr>name = 300000000, close = 100, EMA34 = 105, SMA21 = Some 95, upper_band = 105, lower_band = 95\<rparr>]
   = (Some ''long'', BandStrategy_init 100 3 2 1)"
  using fixed_five_minute_window [of
     "[\<lparr>name = 0, close = 110, EMA34 = 105, SMA21 = Some 95, upper_band = 105, lower_band = 95\<rparr>,
       \<lparr>name = 300000000, close = 100, EMA34 = 105, SMA21 = Some 95, upper_band = 105, lower_band = 95\<rparr>]"
     "BandStrategy_init 100 3 2 1\<lparr>pending_signal := Some ''long'', last_signal_candle := Some 0\<rparr>"
     "''long''" 0]
  by (simp add: BandStrategy_init_def timedelta_minutes_def)

text \<open>
  C10.  Whenever a call returns a signal, it is the pending signal held at the start of the
  call, and after the call neither a pending signal nor its candle time is held.
\<close>

theorem fired_signal_is_pending:
  "fst (get_signal self df) = Some d \<Longrightarrow>
     pending_signal self = Some d \<and>
     pending_signal (snd (get_signal self df)) = None \<and>
     last_signal_candle (snd (get_signal self df)) = None"
  by (auto simp add: get_signal_def Let_def split: if_splits)

theorem fired_signal_is_pending_witness:
  "fst (get_signal (BandStrategy_init 100 3 2 1\<lparr>pending_signal := Some ''short'', last_signal_candle := Some 0\<rparr>)
     [\<lparr>name = 0, close = 90, EMA34 = 105, SMA21 = Some 95, upper_band = 105, lower_band = 95\<rparr>,
      \<lparr>name = 300000000, close = 100, EMA34 = 105, SMA21 = Some 95, upper_band = 105, lower_band = 95\<rparr>])
     = Some ''short'' \<and>
   pending_signal (snd (get_signal (BandStrategy_init 100 3 2 1\<lparr>pending_signal := Some ''short'', last_signal_candle := Some 0\<rparr>)
     [\<lparr>name = 0, close = 90, EMA34 = 105, SMA21 = Some 95, upper_band = 105, lower_band = 95\<rparr>,
      \<lparr>name = 300000000, close = 100, EMA34 = 105, SMA21 = Some 95, upper_band = 105, lower_band = 95\<rparr>])) = None \<and>
   last_signal_candle (snd (get_signal (BandStrategy_init 100 3 2 1\<lparr>pending_signal := Some ''short'', last_signal_candle := Some 0\<rparr>)
     [\<lparr>name = 0, close = 90, EMA34 = 105, SMA21 = Some 95, upper_band = 105, lower_band = 95\<rparr>,
      \<lparr>name = 300000000, close = 100, EMA34 = 105, SMA21 = Some 95, upper_band = 105, lower_band = 95\<rparr>])) = None"
proof -
  have fire: "fst (get_signal (BandStrategy_init 100 3 2 1\<lparr>pending_signal := Some ''short'', last_signal_candle := Some 0\<rparr>)
     [\<lparr>name = 0, close = 90, EMA34 = 105, SMA21 = Some 95, upper_band = 105, lower_band = 95\<rparr>,
      \<lparr>name = 300000000, close = 100, EMA34 = 105, SMA21 = Some 95, upper_band = 105, lower_band = 95\<rparr>])
     = Some ''short''"
    by (simp add: get_signal_def BandStrategy_init_def timedelta_minutes_def
        expected_next_candle_def truthy_str_def)
  from fired_signal_is_pending [OF fire] fire show ?thesis by simp
qed

section \<open>Properties of rounding\<close>

lemma round_half_even_of_int: "round_half_even (of_int k) = k"
  by (simp add: round_half_even_def)

lemma round_half_even_close: "\<bar>of_int (round_half_even x) - x\<bar> \<le> 1 / 2"
  unfolding round_half_even_def Let_def by (auto simp: abs_le_iff)

lemma round_half_even_le: "x \<le> of_int m \<Longrightarrow> round_half_even x \<le> m"
proof -
  assume a: "x \<le> of_int m"
  then have fl: "\<lfloor>x\<rfloor> \<le> m" by (simp add: floor_le_iff) 
  show ?thesis
  proof (cases "\<lfloor>x\<rfloor> = m")
    case True
    with a have "x = of_int m" by linarith
    then show ?thesis by (simp add: round_half_even_of_int)
  next
    case False
    with fl have "\<lfloor>x\<rfloor> + 1 \<le> m" by simp
    then show ?thesis by (auto simp add: round_half_even_def Let_def)
  qed
qed

lemma round_half_even_ge: "of_int m \<le> x \<Longrightarrow> m \<le> round_half_even x"
proof -
  assume "of_int m \<le> x"
  then have "m \<le> \<lfloor>x\<rfloor>" by (simp add: le_floor_iff)
  then show ?thesis by (auto simp add: round_half_even_def Let_def)
qed

lemma py_round_multiple: "py_round (of_int k / 10 ^ n) n = of_int k / 10 ^ n"
  by (simp add: py_round_def round_half_even_of_int)

lemma py_round_close: "\<bar>py_round x n - x\<bar> \<le> 1 / (2 * 10 ^ n)"
proof -
  let ?p = "(10::real) ^ n"
  let ?r = "real_of_int (round_half_even (x * ?p))"
  have p: "0 < ?p" by simp
  have "\<bar>?r - x * ?p\<bar> \<le> 1 / 2" by (rule round_half_even_close)
  then have "\<bar>?r - x * ?p\<bar> / ?p \<le> (1 / 2) / ?p"
    using p by (rule divide_right_mono [OF _ less_imp_le])
  moreover have "py_round x n - x = (?r - x * ?p) / ?p"
    by (simp add: py_round_def diff_divide_distrib)
  then have "\<bar>py_round x n - x\<bar> = \<bar>?r - x * ?p\<bar> / ?p"
    by (simp only: abs_divide abs_of_pos [OF p])
  ultimately show ?thesis by simp
qed

lemma py_round_4_8: "py_round (py_round x 4) 8 = py_round x 4"
proof -
  define K where "K = round_half_even (x * 10 ^ 4) * 10 ^ 4"
  have "py_round x 4 = of_int K / 10 ^ 8"
    by (simp add: py_round_def K_def)
  then show ?thesis by (simp only: py_round_multiple)
qed

lemma py_round_le: "x \<le> of_int m / 10 ^ n \<Longrightarrow> py_round x n \<le> of_int m / 10 ^ n"
proof -
  assume "x \<le> of_int m / 10 ^ n"
  then have "x * 10 ^ n \<le> of_int m" by (simp add: pos_le_divide_eq)
  then have "round_half_even (x * 10 ^ n) \<le> m" by (rule round_half_even_le)
  then show ?thesis by (simp add: py_round_def divide_right_mono)
qed

lemma py_round_ge: "of_int m / 10 ^ n \<le> x \<Longrightarrow> of_int m / 10 ^ n \<le> py_round x n"
proof -
  assume "of_int m / 10 ^ n \<le> x"
  then have "of_int m \<le> x * 10 ^ n" by (simp add: pos_divide_le_eq)
  then have "m \<le> round_half_even (x * 10 ^ n)" by (rule round_half_even_ge)
  then show ?thesis by (simp add: py_round_def divide_right_mono)
qed

section \<open>Properties of the entry levels\<close>

lemma entry_levels_value:
  "bands ''upper'' = Some u \<Longrightarrow> bands ''lower'' = Some l \<Longrightarrow>
   calculate_entry_levels self entry bands is_long =
     Inr (py_round (if is_long then entry + \<bar>u - l\<bar> * tp_multiplier self
                    else entry - \<bar>u - l\<bar> * tp_multiplier self) 4,
          py_round (if is_long then entry - \<bar>u - l\<bar> * sl_multiplier self
                    else entry + \<bar>u - l\<bar> * sl_multiplier self) 4)"
  by (simp add: calculate_entry_levels_def Let_def)

lemma entry_levels_bands:
  "calculate_entry_levels self entry bands is_long = Inr r \<Longrightarrow>
   \<exists>u l. bands ''upper'' = Some u \<and> bands ''lower'' = Some l"
  by (auto simp add: calculate_entry_levels_def split: option.splits)

text \<open>
  C4.  As stated the claim fails: with bands 95 and 105, entry 100 and both multipliers 1,
  the take profit of a long is 110 and the stop loss of a short is 110 as well, so
  the first offset is 10 and the mirrored one is -10.
\<close>

theorem long_tp_offset_not_mirrored:
  "calculate_entry_levels (BandStrategy_init 100 3 1 1) 100 [''upper'' \<mapsto> 105, ''lower'' \<mapsto> 95] True
     = Inr (110, 90) \<and>
   calculate_entry_levels (BandStrategy_init 100 3 1 1) 100 [''upper'' \<mapsto> 105, ''lower'' \<mapsto> 95] False
     = Inr (90, 110) \<and>
   (110::real) - 100 \<noteq> 100 - 110"
  by (simp add: calculate_entry_levels_def BandStrategy_init_def py_round_def round_half_even_def)

text \<open>
  C4, amended.  For equal take-profit and stop-loss multipliers, the take profit of a long
  and the stop loss of a short lie at the same offset on the same side of the entry price:
  \<open>tp_long - entry = sl_short - entry\<close>; likewise the stop loss of a long and the take
  profit of a short.
\<close>

theorem long_tp_is_short_sl:
  assumes "tp_multiplier self = sl_multiplier self"
    and "calculate_entry_levels self entry bands True = Inr (tp_long, sl_long)"
    and "calculate_entry_levels self entry bands False = Inr (tp_short, sl_short)"
  shows "tp_long - entry = sl_short - entry \<and> entry - sl_long = entry - tp_short"
proof -
  from entry_levels_bands [OF assms(2)] obtain u l where
    b: "bands ''upper'' = Some u" "bands ''lower'' = Some l" by blast
  from assms(2,3) assms(1) show ?thesis
    by (simp add: entry_levels_value [OF b])
qed

theorem long_tp_is_short_sl_witness:
  "tp_multiplier (BandStrategy_init 100 3 1 1) = sl_multiplier (BandStrategy_init 100 3 1 1) \<and>
   calculate_entry_levels (BandStrategy_init 100 3 1 1) 100 [''upper'' \<mapsto> 105, ''lower'' \<mapsto> 95] True
     = Inr (110, 90) \<and>
   calculate_entry_levels (BandStrategy_init 100 3 1 1) 100 [''upper'' \<mapsto> 105, ''lower'' \<mapsto> 95] False
     = Inr (90, 110) \<and>
   (110::real) - 100 = 110 - 100 \<and> (100::real) - 90 = 100 - 90"
proof -
  have m: "tp_multiplier (BandStrategy_init 100 3 1 1) = sl_multiplier (BandStrategy_init 100 3 1 1)"
    by (simp add: BandStrategy_init_def)
  have a: "calculate_entry_levels (BandStrategy_init 100 3 1 1) 100 [''upper'' \<mapsto> 105, ''lower'' \<mapsto> 95] True
     = Inr (110, 90)"
    by (simp add: calculate_entry_levels_def BandStrategy_init_def py_round_def round_half_even_def)
  have b: "calculate_entry_levels (BandStrategy_init 100 3 1 1) 100 [''upper'' \<mapsto> 105, ''lower'' \<mapsto> 95] False
     = Inr (90, 110)"
    by (simp add: calculate_entry_levels_def BandStrategy_init_def py_round_def round_half_even_def)
  from long_tp_is_short_sl [OF m a b] m a b show ?thesis by simp
qed

text \<open>
  C5.  As stated the claim fails for an entry price with more than four fractional digits:
  with equal bands and entry 0.12346 both levels are 0.1235.
\<close>

theorem zero_width_levels_not_entry:
  "calculate_entry_levels (BandStrategy_init 100 3 2 1) (12346 / 100000)
      [''upper'' \<mapsto> 1, ''lower'' \<mapsto> 1] True = Inr (1235 / 10000, 1235 / 10000) \<and>
   (1235 / 10000 :: real) \<noteq> 12346 / 100000"
  by (simp add: calculate_entry_levels_def BandStrategy_init_def py_round_def round_half_even_def)

text \<open>
  C5, amended.  With equal upper and lower band, both levels equal the entry price rounded
  to four fractional digits, for either direction; they are within half a unit of the fourth
  digit of the entry price and equal to it when it has at most four fractional digits.
\<close>

theorem zero_width_levels:
  assumes "bands ''upper'' = Some b" and "bands ''lower'' = Some b"
  shows "calculate_entry_levels self entry bands is_long =
           Inr (py_round entry 4, py_round entry 4) \<and>
         \<bar>py_round entry 4 - entry\<bar> \<le> 1 / (2 * 10 ^ 4) \<and>
         (entry = of_int k / 10 ^ 4 \<longrightarrow>
            calculate_entry_levels self entry bands is_long = Inr (entry, entry))"
proof -
  have v: "calculate_entry_levels self entry bands is_long =
           Inr (py_round entry 4, py_round entry 4)"
    by (simp add: entry_levels_value [OF assms])
  moreover have "\<bar>py_round entry 4 - entry\<bar> \<le> 1 / (2 * 10 ^ 4)" by (rule py_round_close)
  moreover have "entry = of_int k / 10 ^ 4 \<longrightarrow>
            calculate_entry_levels self entry bands is_long = Inr (entry, entry)"
  proof
    assume e: "entry = of_int k / 10 ^ 4"
    have "py_round entry 4 = entry" unfolding e by (rule py_round_multiple)
    with v show "calculate_entry_levels self entry bands is_long = Inr (entry, entry)" by simp
  qed
  ultimately show ?thesis by blast
qed

theorem zero_width_levels_witness:
  "[''upper'' \<mapsto> 100, ''lower'' \<mapsto> (100::real)] ''upper'' = Some 100 \<and>
   [''upper'' \<mapsto> 100, ''lower'' \<mapsto> (100::real)] ''lower'' = Some 100 \<and>
   (5123 / 10000 :: real) = of_int 5123 / 10 ^ 4 \<and>
   calculate_entry_levels (BandStrategy_init 100 3 2 1) (5123 / 10000)
      [''upper'' \<mapsto> 100, ''lower'' \<mapsto> 100] True = Inr (5123 / 10000, 5123 / 10000)"
  using zero_width_levels [where bands = "[''upper'' \<mapsto> 100, ''lower'' \<mapsto> 100]" and b = 100
      and entry = "5123 / 10000" and k = 5123 and self = "BandStrategy_init 100 3 2 1"
      and is_long = True]
  by (simp add: py_round_def round_half_even_def)

text \<open>
  C6.  As stated the claim fails: the levels are rounded to four fractional digits.  With
  entry 0.5, bands 0.5 and 0.512345 and multipliers 2 and 1, the long levels are 0.5247 and
  0.4877, where rounding to eight digits gives 0.52469 and 0.487655.
\<close>

theorem levels_not_eight_digits:
  "calculate_entry_levels (BandStrategy_init 100 3 2 1) (1 / 2)
      [''upper'' \<mapsto> 512345 / 1000000, ''lower'' \<mapsto> 1 / 2] True = Inr (5247 / 10000, 4877 / 10000) \<and>
   py_round (1 / 2 + \<bar>512345 / 1000000 - 1 / 2\<bar> * 2) 8 = 52469 / 100000 \<and>
   py_round (1 / 2 - \<bar>512345 / 1000000 - 1 / 2\<bar> * 1) 8 = 487655 / 1000000 \<and>
   (5247 / 10000 :: real) \<noteq> 52469 / 100000 \<and> (4877 / 10000 :: real) \<noteq> 487655 / 1000000"
  by (simp add: calculate_entry_levels_def BandStrategy_init_def py_round_def round_half_even_def)

text \<open>
  C6, amended.  Both returned levels are the unrounded prices rounded to four fractional
  digits, hence whole multiples of 0.0001.
\<close>

theorem levels_rounded_to_four_digits:
  assumes "calculate_entry_levels self entry bands is_long = Inr (tp, sl)"
  shows "\<exists>u l. bands ''upper'' = Some u \<and> bands ''lower'' = Some l \<and>
           tp = py_round (if is_long then entry + \<bar>u - l\<bar> * tp_multiplier self
                          else entry - \<bar>u - l\<bar> * tp_multiplier self) 4 \<and>
           sl = py_round (if is_long then entry - \<bar>u - l\<bar> * sl_multiplier self
                          else entry + \<bar>u - l\<bar> * sl_multiplier self) 4 \<and>
           (\<exists>i j :: int. tp = of_int i / 10 ^ 4 \<and> sl = of_int j / 10 ^ 4)"
proof -
  from entry_levels_bands [OF assms] obtain u l where
    b: "bands ''upper'' = Some u" "bands ''lower'' = Some l" by blast
  from assms have "tp = py_round (if is_long then entry + \<bar>u - l\<bar> * tp_multiplier self
                          else entry - \<bar>u - l\<bar> * tp_multiplier self) 4"
    and "sl = py_round (if is_long then entry - \<bar>u - l\<bar> * sl_multiplier self
                          else entry + \<bar>u - l\<bar> * sl_multiplier self) 4"
    by (simp_all add: entry_levels_value [OF b])
  moreover from this have "\<exists>i j :: int. tp = of_int i / 10 ^ 4 \<and> sl = of_int j / 10 ^ 4"
    unfolding py_round_def by blast
  ultimately show ?thesis using b by blast
qed

theorem levels_rounded_to_four_digits_witness:
  "calculate_entry_levels (BandStrategy_init 100 3 2 1) (1 / 2)
      [''upper'' \<mapsto> 512345 / 1000000, ''lower'' \<mapsto> 1 / 2] True = Inr (5247 / 10000, 4877 / 10000) \<and>
   (\<exists>i j :: int. (5247 / 10000 :: real) = of_int i / 10 ^ 4 \<and> (4877 / 10000 :: real) = of_int j / 10 ^ 4)"
proof -
  have v: "calculate_entry_levels (BandStrategy_init 100 3 2 1) (1 / 2)
      [''upper'' \<mapsto> 512345 / 1000000, ''lower'' \<mapsto> 1 / 2] True = Inr (5247 / 10000, 4877 / 10000)"
    by (simp add: calculate_entry_levels_def BandStrategy_init_def py_round_def round_half_even_def)
  from levels_rounded_to_four_digits [OF v] v show ?thesis by blast
qed

section \<open>Properties of the indicators\<close>

lemma filter_ge_upt: "filter (\<lambda>i. m \<le> i) [0..<n] = [m..<n]"
proof (induction n)
  case 0
  then show ?case by simp
next
  case (Suc n)
  then show ?case by (cases "m \<le> n") auto
qed

lemma nth_rolling_mean:
  "i < length xs \<Longrightarrow>
   rolling_mean w xs ! i =
     (if i + 1 < w then None else Some (sum_list (take w (drop (i + 1 - w) xs)) / real w))"
  by (simp add: rolling_mean_def)

lemma rolling_mean_defined:
  "i < length xs \<Longrightarrow> (rolling_mean 21 xs ! i \<noteq> None) = (20 \<le> i)"
  by (cases "i + 1 < 21") (simp_all only: nth_rolling_mean if_True if_False, simp_all)

lemma dropna_rows:
  assumes "\<And>i. i < n \<Longrightarrow> SMA21 (f i) \<noteq> None \<longleftrightarrow> 20 \<le> i"
  shows "dropna (map f [0..<n]) = map f [20..<n]"
proof -
  have "filter (\<lambda>i. SMA21 (f i) \<noteq> None) [0..<n] = filter (\<lambda>i. 20 \<le> i) [0..<n]"
    using assms by (intro filter_cong) auto
  then show ?thesis by (simp add: dropna_def filter_map o_def filter_ge_upt)
qed

lemma calculate_indicators_rows:
  "calculate_indicators df =
     map (\<lambda>i. \<lparr> name = name (df ! i), close = close (df ! i),
                 EMA34 = ewm_mean 34 (map close df) ! i,
                 SMA21 = rolling_mean 21 (map close df) ! i,
                 upper_band = max_skipna (ewm_mean 34 (map close df) ! i)
                                (rolling_mean 21 (map close df) ! i),
                 lower_band = min_skipna (ewm_mean 34 (map close df) ! i)
                                (rolling_mean 21 (map close df) ! i) \<rparr>)
         [20..<length df]"
proof (cases "df = []")
  case True
  then show ?thesis by (simp add: calculate_indicators_def)
next
  case False
  have "dropna
      (map (\<lambda>i. \<lparr> name = name (df ! i), close = close (df ! i),
                 EMA34 = ewm_mean 34 (map close df) ! i,
                 SMA21 = rolling_mean 21 (map close df) ! i,
                 upper_band = max_skipna (ewm_mean 34 (map close df) ! i)
                                (rolling_mean 21 (map close df) ! i),
                 lower_band = min_skipna (ewm_mean 34 (map close df) ! i)
                                (rolling_mean 21 (map close df) ! i) \<rparr>)
         [0..<length df]) =
      map (\<lambda>i. \<lparr> name = name (df ! i), close = close (df ! i),
                 EMA34 = ewm_mean 34 (map close df) ! i,
                 SMA21 = rolling_mean 21 (map close df) ! i,
                 upper_band = max_skipna (ewm_mean 34 (map close df) ! i)
                                (rolling_mean 21 (map close df) ! i),
                 lower_band = min_skipna (ewm_mean 34 (map close df) ! i)
                                (rolling_mean 21 (map close df) ! i) \<rparr>)
         [20..<length df]"
    by (rule dropna_rows) (simp add: rolling_mean_defined [simplified])
  with False show ?thesis
    by (simp add: calculate_indicators_def Let_def)
qed

lemma drop_as_nth: "drop m xs = map (\<lambda>i. xs ! i) [m..<length xs]"
proof -
  have "drop m xs = drop m (map (\<lambda>i. xs ! i) [0..<length xs])" by (simp add: map_nth)
  also have "\<dots> = map (\<lambda>i. xs ! i) [m..<length xs]" by (simp add: drop_map)
  finally show ?thesis .
qed

lemma ex_indicators:
  "calculate_indicators
     (map (\<lambda>i. \<lparr>name = int i * 300000000, close = 100\<rparr>) [0..<20] @
      [\<lparr>name = 6000000000, close = 121\<rparr>])
   = [\<lparr>name = 6000000000, close = 121, EMA34 = 506 / 5, SMA21 = Some 101,
       upper_band = 506 / 5, lower_band = 101\<rparr>]"
  by code_simp

text \<open>
  C8.  For a frame of fewer than 21 candles \<^verbatim>\<open>calculate_indicators\<close> returns the empty
  frame.  For a frame of at least 21 candles the result holds exactly the candles after the
  first 20, in order, and every row carries its simple average and the two bands, the
  maximum and the minimum of the two averages.
\<close>

theorem indicators_warm_up:
  "(length df < 21 \<longrightarrow> calculate_indicators df = []) \<and>
   (21 \<le> length df \<longrightarrow>
      map candle.truncate (calculate_indicators df) = drop 20 df \<and>
      (\<forall>r \<in> set (calculate_indicators df).
         \<exists>s. SMA21 r = Some s \<and> upper_band r = max (EMA34 r) s \<and>
             lower_band r = min (EMA34 r) s))"
proof (intro conjI impI)
  assume "length df < 21"
  then show "calculate_indicators df = []" by (simp add: calculate_indicators_rows)
next
  assume "21 \<le> length df"
  show "map candle.truncate (calculate_indicators df) = drop 20 df"
    by (simp add: calculate_indicators_rows drop_as_nth [of 20 df] o_def candle.truncate_def)
next
  assume "21 \<le> length df"
  show "\<forall>r \<in> set (calculate_indicators df).
         \<exists>s. SMA21 r = Some s \<and> upper_band r = max (EMA34 r) s \<and>
             lower_band r = min (EMA34 r) s"
  proof
    fix r
    assume "r \<in> set (calculate_indicators df)"
    then obtain i where i: "20 \<le> i" "i < length df"
      and r: "SMA21 r = rolling_mean 21 (map close df) ! i"
        "upper_band r = max_skipna (EMA34 r) (rolling_mean 21 (map close df) ! i)"
        "lower_band r = min_skipna (EMA34 r) (rolling_mean 21 (map close df) ! i)"
      by (auto simp add: calculate_indicators_rows)
    from i have "rolling_mean 21 (map close df) ! i =
        Some (sum_list (take 21 (drop (i + 1 - 21) (map close df))) / real 21)"
      by (simp add: nth_rolling_mean)
    then obtain s where "rolling_mean 21 (map close df) ! i = Some s" by blast
    with r show "\<exists>s. SMA21 r = Some s \<and> upper_band r = max (EMA34 r) s \<and>
             lower_band r = min (EMA34 r) s"
      by (simp add: max_skipna_def min_skipna_def)
  qed
qed

theorem indicators_warm_up_witness:
  "21 \<le> length (map (\<lambda>i. \<lparr>name = int i * 300000000, close = 100\<rparr>) [0..<20] @
                   [\<lparr>name = 6000000000, close = 121\<rparr>]) \<and>
   map candle.truncate (calculate_indicators
     (map (\<lambda>i. \<lparr>name = int i * 300000000, close = 100\<rparr>) [0..<20] @
      [\<lparr>name = 6000000000, close = 121\<rparr>]))
     = [\<lparr>name = 6000000000, close = 121\<rparr>] \<and>
   calculate_indicators
     (map (\<lambda>i. \<lparr>name = int i * 300000000, close = 100\<rparr>) [0..<20] @
      [\<lparr>name = 6000000000, close = 121\<rparr>])
     = [\<lparr>name = 6000000000, close = 121, EMA34 = 506 / 5, SMA21 = Some 101,
         upper_band = max (506 / 5) 101, lower_band = min (506 / 5) 101\<rparr>] \<and>
   length [\<lparr>name = 0, close = 100\<rparr>, \<lparr>name = 300000000, close = 101\<rparr>] < 21 \<and>
   calculate_indicators [\<lparr>name = 0, close = 100\<rparr>, \<lparr>name = 300000000, close = 101\<rparr>] = []"
  using indicators_warm_up [of "map (\<lambda>i. \<lparr>name = int i * 300000000, close = 100\<rparr>) [0..<20] @
                   [\<lparr>name = 6000000000, close = 121\<rparr>]"]
    indicators_warm_up [of "[\<lparr>name = 0, close = 100\<rparr>, \<lparr>name = 300000000, close = 101\<rparr>]"]
  by (simp add: ex_indicators)

section \<open>Properties of the position size\<close>

lemma minimum_amount_cases:
  "get_minimum_amount symbol = Inr (1 / 10) \<or> get_minimum_amount symbol = Inr 1"
  by (simp add: get_minimum_amount_def MIN_AMOUNTS_def)

lemma position_size_clamped:
  assumes "price \<noteq> 0" and m: "get_minimum_amount symbol = Inr (of_int M / 10 ^ 4)"
  shows "calculate_position_size price usd lev symbol =
           Inr (max (of_int M / 10 ^ 4) (py_round (usd * of_int lev / price) 4))"
proof -
  let ?m = "real_of_int M / 10 ^ 4"
  let ?p = "py_round (usd * of_int lev / price) 4"
  have "?m = of_int (M * 10 ^ 4) / 10 ^ 8" by simp
  then have r8: "py_round ?m 8 = ?m" by (simp only: py_round_multiple)
  have "calculate_position_size price usd lev symbol =
          Inr (py_round (if ?p < ?m then ?m else ?p) 8)"
    using assms by (simp add: calculate_position_size_def Let_def)
  also have "py_round (if ?p < ?m then ?m else ?p) 8 = max ?m ?p"
    using r8 by (simp add: py_round_4_8 max_def)
  finally show ?thesis .
qed

lemma ex_size_clamped: "calculate_position_size 1000 10 1 ''ETH-USDT'' = Inr 1"
  by (simp add: calculate_position_size_def get_minimum_amount_def MIN_AMOUNTS_def
      py_round_def round_half_even_def)

lemma ex_size_rounded: "calculate_position_size 50 100 3 ''ETH-USDT'' = Inr 6"
  by (simp add: calculate_position_size_def get_minimum_amount_def MIN_AMOUNTS_def
      py_round_def round_half_even_def)

text \<open>
  C7.  For every non-zero price (so for every positive one), every notional and leverage
  and every symbol, \<^verbatim>\<open>calculate_position_size\<close> returns a size that is at least the
  minimum of the symbol: the minimum itself when the raw size is below it, and the raw
  size rounded to four fractional digits otherwise.  With notional 10, leverage 1, price
  1000 and minimum 1 the result is 1; with notional 100, leverage 3 and price 50 it is 6.
\<close>

theorem position_size_at_least_minimum:
  assumes "price \<noteq> 0"
  shows "\<exists>m r. get_minimum_amount symbol = Inr m \<and>
           calculate_position_size price usd lev symbol = Inr r \<and>
           m \<le> r \<and>
           (usd * of_int lev / price < m \<longrightarrow> r = m) \<and>
           (m \<le> usd * of_int lev / price \<longrightarrow> r = py_round (usd * of_int lev / price) 4)"
proof -
  let ?raw = "usd * of_int lev / price"
  from minimum_amount_cases [of symbol] obtain M :: int where
    m: "get_minimum_amount symbol = Inr (of_int M / 10 ^ 4)"
  proof
    assume "get_minimum_amount symbol = Inr (1 / 10)"
    then have "get_minimum_amount symbol = Inr (of_int 1000 / 10 ^ 4)" by simp
    then show ?thesis by (rule that)
  next
    assume "get_minimum_amount symbol = Inr 1"
    then have "get_minimum_amount symbol = Inr (of_int 10000 / 10 ^ 4)" by simp
    then show ?thesis by (rule that)
  qed
  let ?m = "real_of_int M / 10 ^ 4"
  let ?r = "max ?m (py_round ?raw 4)"
  have r: "calculate_position_size price usd lev symbol = Inr ?r"
    using assms m by (rule position_size_clamped)
  have below: "?raw < ?m \<longrightarrow> ?r = ?m"
  proof
    assume "?raw < ?m"
    then have "py_round ?raw 4 \<le> ?m" by (intro py_round_le) simp
    then show "?r = ?m" by simp
  qed
  have above: "?m \<le> ?raw \<longrightarrow> ?r = py_round ?raw 4"
  proof
    assume "?m \<le> ?raw"
    then have "?m \<le> py_round ?raw 4" by (rule py_round_ge)
    then show "?r = py_round ?raw 4" by simp
  qed
  have "?m \<le> ?r" by simp
  with m r below above show ?thesis by blast
qed

theorem position_size_at_least_minimum_witness:
  "(1000::real) \<noteq> 0 \<and> (50::real) \<noteq> 0 \<and>
   get_minimum_amount ''ETH-USDT'' = Inr 1 \<and>
   (10 * of_int 1 / 1000 :: real) < 1 \<and>
   calculate_position_size 1000 10 1 ''ETH-USDT'' = Inr 1 \<and>
   (1::real) \<le> 100 * of_int 3 / 50 \<and>
   calculate_position_size 50 100 3 ''ETH-USDT'' = Inr 6 \<and>
   py_round (100 * of_int 3 / 50) 4 = 6"
  using position_size_at_least_minimum [where price = 1000 and symbol = "''ETH-USDT''"
      and usd = 10 and lev = 1]
    position_size_at_least_minimum [where price = 50 and symbol = "''ETH-USDT''"
      and usd = 100 and lev = 3]
  by (simp add: ex_size_clamped ex_size_rounded get_minimum_amount_def MIN_AMOUNTS_def
      py_round_def round_half_even_def)

section \<open>Properties of validation\<close>

text \<open>
  C9.  As stated the claim fails: the constructor of the strategy checks nothing, and a
  configuration with negative size, leverage 0 and non-positive multipliers is accepted.
\<close>

theorem constructor_accepts_invalid_config:
  "BandStrategy_new (-100) 0 (-2) 0 =
     Inr \<lparr> position_size_usd = -100, leverage = 0, tp_multiplier = -2, sl_multiplier = 0,
           active_position = None, last_signal_candle = None, pending_signal = None \<rparr>"
  by (simp add: BandStrategy_new_def BandStrategy_init_def)

text \<open>
  C9, amended.  \<^verbatim>\<open>validate_input\<close> raises \<^verbatim>\<open>ValueError\<close> for a non-positive position
  size, a leverage below 1 or a non-positive take-profit or stop-loss percentage, and returns
  normally for a positive size, leverage at least 1, positive percentages and a symbol ending
  in \<^verbatim>\<open>-USDT\<close>.  The constructor of the strategy performs no validation and returns
  for every configuration.
\<close>

theorem validation_is_separate:
  "(position_size \<le> 0 \<or> lev < 1 \<or> tp \<le> 0 \<or> sl \<le> 0 \<longrightarrow>
      (\<exists>msg. validate_input symbol position_size lev tp sl = Inl (ValueError msg))) \<and>
   (0 < position_size \<and> 1 \<le> lev \<and> 0 < tp \<and> 0 < sl \<and> endswith symbol ''-USDT'' \<longrightarrow>
      validate_input symbol position_size lev tp sl = Inr ()) \<and>
   BandStrategy_new position_size lev tp sl =
     Inr \<lparr> position_size_usd = position_size, leverage = lev, tp_multiplier = tp,
           sl_multiplier = sl, active_position = None, last_signal_candle = None,
           pending_signal = None \<rparr>"
  by (auto simp add: validate_input_def BandStrategy_new_def BandStrategy_init_def)

theorem validation_is_separate_witness:
  "validate_input ''BTC-USDT'' (-100) 3 2 1 = Inl (ValueError ''Position size must be positive'') \<and>
   validate_input ''BTC-USDT'' 100 0 2 1 = Inl (ValueError ''Leverage must be at least 1'') \<and>
   validate_input ''BTC-USDT'' 100 3 0 1 = Inl (ValueError ''TP and SL percentages must be positive'') \<and>
   validate_input ''BTC-USDT'' 100 3 2 (-1) = Inl (ValueError ''TP and SL percentages must be positive'') \<and>
   endswith ''BTC-USDT'' ''-USDT'' \<and>
   validate_input ''BTC-USDT'' 100 3 2 1 = Inr () \<and>
   BandStrategy_new 100 3 2 1 = Inr (BandStrategy_init 100 3 2 1)"
  using validation_is_separate [where position_size = "-100" and lev = 3 and tp = 2 and sl = 1
      and symbol = "''BTC-USDT''"]
    validation_is_separate [where position_size = 100 and lev = 0 and tp = 2 and sl = 1
      and symbol = "''BTC-USDT''"]
    validation_is_separate [where position_size = 100 and lev = 3 and tp = 0 and sl = 1
      and symbol = "''BTC-USDT''"]
    validation_is_separate [where position_size = 100 and lev = 3 and tp = 2 and sl = "-1"
      and symbol = "''BTC-USDT''"]
    validation_is_separate [where position_size = 100 and lev = 3 and tp = 2 and sl = 1
      and symbol = "''BTC-USDT''"]
  by (simp add: validate_input_def endswith_def BandStrategy_init_def)

end
